theory Spec2Isabelle
  imports Complex_Main "HOL-Library.Sublist"
begin

section \<open>Resolution analysis of page-image archives (little-busters.py)\<close>

text \<open>
  The program reads the pixel size of every image of a zip archive, halves the recorded
  width of double spreads, flags the entries whose area is too far below the average
  area and optionally rewrites the archive without them.

  Numbers. The sizes that \<open>get_sizes\<close> returns are Python integers; \<open>/\<close> is Python's
  true division and yields a float. The embedding takes every number as an exact
  rational (\<^typ>\<open>rat\<close>): an integer is embedded as itself, and a float operation is
  taken without its binary rounding. Division by zero raises \<open>ZeroDivisionError\<close> in
  Python, for integers and floats alike, and is a branch of the model.
\<close>

datatype py_error =
    ZeroDivisionError
  | OSError
  | FileNotFoundError
  | IsADirectoryError
  | NotADirectoryError
  | FileExistsError
  | IndexError
  | KeyError

type_synonym size = "rat \<times> rat"

subsection \<open>\<open>calculate_average_resolution\<close>\<close>

text \<open>
  \<^verbatim>\<open>count = len(sizes)
horizontal = sum([x[0] for x in sizes]) / count
vertical = sum([x[1] for x in sizes]) / count
return (horizontal, vertical)\<close>
\<close>

definition calculate_average_resolution :: "size list \<Rightarrow> py_error + size" where
  "calculate_average_resolution sizes =
     (let count = length sizes in
      if count = 0 then Inl ZeroDivisionError
      else
        (let horizontal = sum_list (map fst sizes) / of_nat count;
             vertical = sum_list (map snd sizes) / of_nat count
         in Inr (horizontal, vertical)))"

subsection \<open>\<open>detect_double_spreads\<close>\<close>

text \<open>
  The loop \<^verbatim>\<open>for index, size in enumerate(sizes)\<close> walks the live list by position and
  assigns \<^verbatim>\<open>sizes[index]\<close> while it runs. The model threads the list through the loop:
  \<open>spreads_loop\<close> is the loop from position \<open>index\<close> on, reading the current list.
  Python evaluates \<open>horizontal_diff\<close> before \<open>vertical_diff\<close>; either division raises
  when its divisor is zero.
\<close>

function spreads_loop :: "size \<Rightarrow> rat \<Rightarrow> nat \<Rightarrow> size list \<Rightarrow> py_error + size list" where
  "spreads_loop average treshold index sizes =
     (if index < length sizes then
        (let size = sizes ! index in
         if fst average = 0 then Inl ZeroDivisionError
         else
           (let horizontal_diff = \<bar>1 - fst size / 2 / fst average\<bar> in
            if snd average = 0 then Inl ZeroDivisionError
            else
              (let vertical_diff = \<bar>1 - snd size / snd average\<bar> in
               spreads_loop average treshold (Suc index)
                 (if horizontal_diff < treshold \<and> vertical_diff < treshold
                  then sizes[index := (fst size / 2, snd size)]
                  else sizes))))
      else Inr sizes)"
  by pat_completeness auto
termination
  by (relation "measure (\<lambda>(average, treshold, index, sizes). length sizes - index)") auto

declare spreads_loop.simps [simp del]

text \<open>The function returns nothing in Python; the model returns the list as it leaves it.\<close>

definition detect_double_spreads :: "size list \<Rightarrow> rat \<Rightarrow> py_error + size list" where
  "detect_double_spreads sizes treshold =
     (case calculate_average_resolution sizes of
        Inl e \<Rightarrow> Inl e
      | Inr average \<Rightarrow> spreads_loop average treshold 0 sizes)"

subsection \<open>\<open>detect_non_pages\<close>\<close>

text \<open>
  \<open>non_pages_loop\<close> is the loop over \<^verbatim>\<open>enumerate(sizes)\<close>; \<open>indexes\<close> is the list the
  loop appends to, and \<open>sz\<close> is the loop variable \<open>size\<close> (a constant of HOL).
\<close>

fun non_pages_loop ::
  "rat \<Rightarrow> rat \<Rightarrow> nat \<Rightarrow> size list \<Rightarrow> (nat \<times> rat) list \<Rightarrow> py_error + (nat \<times> rat) list" where
  "non_pages_loop average_resolution treshold index [] indexes = Inr indexes"
| "non_pages_loop average_resolution treshold index (sz # rest) indexes =
     (let resolution = fst sz * snd sz in
      if average_resolution = 0 then Inl ZeroDivisionError
      else
        (let size_diff = resolution / average_resolution in
         non_pages_loop average_resolution treshold (Suc index) rest
           (if 1 - size_diff > treshold then indexes @ [(index, size_diff)] else indexes)))"

definition detect_non_pages :: "size list \<Rightarrow> rat \<Rightarrow> py_error + (nat \<times> rat) list" where
  "detect_non_pages sizes treshold =
     (case calculate_average_resolution sizes of
        Inl e \<Rightarrow> Inl e
      | Inr average \<Rightarrow>
          (let average_resolution = fst average * snd average in
           non_pages_loop average_resolution treshold 0 sizes []))"

text \<open>
  The analysis part of \<open>main\<close> for one archive: normalise the sizes, then detect on the
  normalised list.
\<close>

definition analyse :: "size list \<Rightarrow> rat \<Rightarrow> py_error + (nat \<times> rat) list" where
  "analyse sizes threshold =
     (case detect_double_spreads sizes threshold of
        Inl e \<Rightarrow> Inl e
      | Inr sizes' \<Rightarrow> detect_non_pages sizes' threshold)"

section \<open>Rewriting the archive\<close>

text \<open>
  \<open>create_archive\<close> works on the file system through \<open>tempfile\<close>, \<open>zipfile\<close> and
  \<open>os.path\<close>. The file system is an explicit store, threaded through every step.

  A path is the list of its components below the root, so \<open>/tmp/tmpab12cd\<close> is
  \<open>[''tmp'', ''tmpab12cd'']\<close>; a member name of an archive and the name a member is
  written under are strings, as in \<open>zipfile\<close>. A file holds bytes (\<^typ>\<open>char\<close> is a
  byte). An opened archive is the list of its members, name and uncompressed content,
  in the order of \<open>namelist()\<close>.
\<close>

type_synonym bytes = string
type_synonym path = "string list"
type_synonym zip_entries = "(string \<times> bytes) list"

datatype node = Dir | File bytes

type_synonym filesystem = "path \<Rightarrow> node option"

text \<open>
  Every step that touches the file system can fail. \<open>fails\<close> says which ones do in a
  run: a failing step raises \<open>OSError\<close> and changes nothing. The names that
  \<open>NamedTemporaryFile()\<close> and \<open>TemporaryDirectory()\<close> pick are \<open>tmp_file\<close> and
  \<open>tmp_dir\<close>; \<open>zip_bytes\<close> is the container format, the bytes \<open>ZipFile\<close> writes for a
  list of members, of which nothing is assumed.
\<close>

datatype io_op = NewTemporaryFile | NewTemporaryDirectory | Extract nat | Write nat | Cleanup

record env =
  tmp_file :: path
  tmp_dir :: path
  fails :: "io_op \<Rightarrow> bool"
  zip_bytes :: "zip_entries \<Rightarrow> bytes"

subsection \<open>\<open>str.split('/')\<close>, \<open>'/'.join\<close> and \<open>os.path\<close>\<close>

fun split_path :: "string \<Rightarrow> string list" where
  "split_path [] = [[]]"
| "split_path (c # cs) =
     (if c = CHR ''/'' then [] # split_path cs
      else (case split_path cs of [] \<Rightarrow> [[c]] | p # ps \<Rightarrow> (c # p) # ps))"

fun join_path :: "string list \<Rightarrow> string" where
  "join_path [] = []"
| "join_path [p] = p"
| "join_path (p # q # ps) = p @ CHR ''/'' # join_path (q # ps)"

text \<open>
  The loop of \<open>posixpath.normpath\<close> over the components of a path; \<open>initial_slashes\<close>
  says whether the path is absolute, and \<open>component\<close> is the loop variable \<open>comp\<close>.
\<close>

fun norm_comps :: "bool \<Rightarrow> string list \<Rightarrow> string list \<Rightarrow> string list" where
  "norm_comps initial_slashes new_comps [] = new_comps"
| "norm_comps initial_slashes new_comps (component # comps) =
     (if component = [] \<or> component = ''.'' then norm_comps initial_slashes new_comps comps
      else if component \<noteq> ''..'' \<or> (\<not> initial_slashes \<and> new_comps = []) \<or>
              (new_comps \<noteq> [] \<and> last new_comps = ''..'')
        then norm_comps initial_slashes (new_comps @ [component]) comps
      else if new_comps \<noteq> [] then norm_comps initial_slashes (butlast new_comps) comps
      else norm_comps initial_slashes new_comps comps)"

text \<open>
  \<open>os.path.join(directory, name)\<close> for a directory given by its components: an
  absolute \<open>name\<close> replaces the directory. The result is the component list as written,
  not yet normalised.
\<close>

definition os_path_join :: "path \<Rightarrow> string \<Rightarrow> string list" where
  "os_path_join directory name =
     (if name \<noteq> [] \<and> hd name = CHR ''/'' then split_path name
      else directory @ split_path name)"

subsection \<open>\<open>ZipFile.extract\<close> and \<open>ZipFile.write\<close>\<close>

text \<open>
  \<open>getinfo(name)\<close> looks the name up in a dictionary that a later member of the same
  name overwrites: it is the last member of that name.
\<close>

definition getinfo :: "zip_entries \<Rightarrow> string \<Rightarrow> bytes option" where
  "getinfo archive name = map_of (rev archive) name"

definition is_dir :: "string \<Rightarrow> bool" where
  "is_dir filename = (filename \<noteq> [] \<and> last filename = CHR ''/'')"

definition is_file_node :: "filesystem \<Rightarrow> path \<Rightarrow> bool" where
  "is_file_node fs p = (case fs p of Some (File b) \<Rightarrow> True | _ \<Rightarrow> False)"

text \<open>
  \<open>archive.extract(member, path)\<close>: the member name loses its empty, \<open>.\<close> and \<open>..\<close>
  components and is put below \<open>path\<close>; missing directories above the target are made;
  a member whose name ends in \<open>/\<close> becomes a directory, any other a file with the
  member's content. \<open>index\<close> only names the step for \<open>fails\<close>.
\<close>

definition zip_extract ::
  "env \<Rightarrow> nat \<Rightarrow> zip_entries \<Rightarrow> string \<Rightarrow> path \<Rightarrow> filesystem \<Rightarrow> (py_error + path) \<times> filesystem" where
  "zip_extract e index archive member path fs =
     (if fails e (Extract index) then (Inl OSError, fs)
      else
        (case getinfo archive member of
           None \<Rightarrow> (Inl KeyError, fs)
         | Some data \<Rightarrow>
             (let arcname = filter (\<lambda>x. x \<noteq> [] \<and> x \<noteq> ''.'' \<and> x \<noteq> ''..'') (split_path member);
                  targetpath = path @ arcname;
                  upperdirs = map (\<lambda>k. path @ take k arcname) [1..<length arcname]
              in if list_ex (is_file_node fs) upperdirs then (Inl NotADirectoryError, fs)
                 else
                   (let fs1 = foldl (\<lambda>f d. f(d \<mapsto> Dir)) fs upperdirs in
                    if is_dir member then
                      (if is_file_node fs1 targetpath then (Inl FileExistsError, fs1)
                       else (Inr targetpath, fs1(targetpath \<mapsto> Dir)))
                    else
                      (if fs1 targetpath = Some Dir then (Inl IsADirectoryError, fs1)
                       else (Inr targetpath, fs1(targetpath \<mapsto> File data)))))))"

text \<open>
  \<open>new_archive.write(filename)\<close> with no \<open>arcname\<close>: the file is read from the file
  system, and the member is named after the normalised path of the file with the
  leading separators removed (\<open>/\<close> is added for a directory). \<open>filename\<close> is the component
  list that \<open>os_path_join\<close> gives.
\<close>

definition zip_write ::
  "env \<Rightarrow> nat \<Rightarrow> string list \<Rightarrow> zip_entries \<Rightarrow> filesystem \<Rightarrow> py_error + zip_entries" where
  "zip_write e index filename new_archive fs =
     (if fails e (Write index) then Inl OSError
      else
        (let resolved = norm_comps True [] filename in
         case fs resolved of
           None \<Rightarrow> Inl FileNotFoundError
         | Some n \<Rightarrow>
             if resolved = [] then Inl IndexError
             else
               (let arcname = join_path resolved in
                case n of
                  Dir \<Rightarrow> Inr (new_archive @ [(arcname @ ''/'', [])])
                | File data \<Rightarrow> Inr (new_archive @ [(arcname, data)]))))"

subsection \<open>\<open>create_archive\<close>\<close>

text \<open>
  The loop \<^verbatim>\<open>for index, filename in enumerate(archive.namelist())\<close>. \<open>excluded\<close> is a
  Python list of integers, and \<^verbatim>\<open>index not in excluded\<close> compares the position with
  its elements.
\<close>

fun create_archive_loop ::
  "env \<Rightarrow> zip_entries \<Rightarrow> int list \<Rightarrow> nat \<Rightarrow> string list \<Rightarrow> zip_entries \<Rightarrow> filesystem \<Rightarrow>
   (py_error + zip_entries) \<times> filesystem" where
  "create_archive_loop e archive excluded index [] new_archive fs = (Inr new_archive, fs)"
| "create_archive_loop e archive excluded index (filename # rest) new_archive fs =
     (if int index \<notin> set excluded then
        (case zip_extract e index archive filename (tmp_dir e) fs of
           (Inl err, fs') \<Rightarrow> (Inl err, fs')
         | (Inr target, fs') \<Rightarrow>
             (case zip_write e index (os_path_join (tmp_dir e) filename) new_archive fs' of
                Inl err \<Rightarrow> (Inl err, fs')
              | Inr new_archive' \<Rightarrow>
                  create_archive_loop e archive excluded (Suc index) rest new_archive' fs'))
      else create_archive_loop e archive excluded (Suc index) rest new_archive fs)"

text \<open>
  \<open>create_archive\<close> returns the temporary file; the model returns its name together
  with the members written to it. The \<open>ZipFile\<close> object is closed when the function
  returns, which is when the container is complete in the temporary file. After a
  failure the temporary files are left as they are at that moment.
\<close>

definition create_archive ::
  "env \<Rightarrow> filesystem \<Rightarrow> zip_entries \<Rightarrow> int list \<Rightarrow>
   (py_error + path \<times> zip_entries) \<times> filesystem" where
  "create_archive e fs archive excluded =
     (if fails e NewTemporaryFile then (Inl OSError, fs)
      else
        (let fs1 = fs(tmp_file e \<mapsto> File []) in
         if fails e NewTemporaryDirectory then (Inl OSError, fs1)
         else
           (let fs2 = fs1(tmp_dir e \<mapsto> Dir) in
            case create_archive_loop e archive excluded 0 (map fst archive) [] fs2 of
              (Inl err, fs3) \<Rightarrow> (Inl err, fs3)
            | (Inr new_archive, fs3) \<Rightarrow>
                if fails e Cleanup then (Inl OSError, fs3)
                else
                  (let fs4 = (\<lambda>p. if prefix (tmp_dir e) p then None else fs3 p) in
                   (Inr (tmp_file e, new_archive),
                    fs4(tmp_file e \<mapsto> File (zip_bytes e new_archive)))))))"

subsection \<open>The rewrite in \<open>main\<close>\<close>

definition copyfile :: "path \<Rightarrow> path \<Rightarrow> filesystem \<Rightarrow> (py_error + unit) \<times> filesystem" where
  "copyfile src dst fs =
     (case fs src of
        None \<Rightarrow> (Inl FileNotFoundError, fs)
      | Some Dir \<Rightarrow> (Inl IsADirectoryError, fs)
      | Some (File data) \<Rightarrow>
          (if fs dst = Some Dir then (Inl IsADirectoryError, fs)
           else (Inr (), fs(dst \<mapsto> File data))))"

text \<open>
  The end of the loop body of \<open>main\<close> for the archive at \<open>file\<close>:
  \<^verbatim>\<open>if non_pages: ... if not dry_run:
    new_file = create_archive(archive, [x[0] for x in non_pages])
    copyfile(new_file.name, file)\<close>
\<close>

definition main_rewrite ::
  "bool \<Rightarrow> env \<Rightarrow> filesystem \<Rightarrow> path \<Rightarrow> zip_entries \<Rightarrow> (nat \<times> rat) list \<Rightarrow>
   (py_error + unit) \<times> filesystem" where
  "main_rewrite dry_run e fs file archive non_pages =
     (if non_pages \<noteq> [] \<and> \<not> dry_run then
        (case create_archive e fs archive (map (\<lambda>x. int (fst x)) non_pages) of
           (Inl err, fs') \<Rightarrow> (Inl err, fs')
         | (Inr (new_file, new_archive), fs') \<Rightarrow> copyfile new_file file fs')
      else (Inr (), fs))"

subsection \<open>Flat member names\<close>


subsection \<open>Example runs\<close>

text \<open>A run in which writing the second member to the new archive fails.\<close>

definition failing_env :: env where
  "failing_env =
     \<lparr>tmp_file = [''tmp'', ''tmpx1y2z3''], tmp_dir = [''tmp'', ''tmpab12cd''],
      fails = (\<lambda>op. op = Write 1), zip_bytes = (\<lambda>members. concat (map snd members))\<rparr>"

text \<open>A run in which no step fails.\<close>

definition quiet_env :: env where
  "quiet_env =
     \<lparr>tmp_file = [''tmp'', ''tmpx1y2z3''], tmp_dir = [''tmp'', ''tmpab12cd''],
      fails = (\<lambda>op. False), zip_bytes = (\<lambda>members. concat (map snd members))\<rparr>"

section \<open>The loops as list functions\<close>

text \<open>
  Shared facts: what the average is on a non-empty list, and what each loop computes
  when no division raises.
\<close>

lemma calculate_average_resolution_mean:
  "sizes \<noteq> [] \<Longrightarrow>
   calculate_average_resolution sizes =
     Inr (sum_list (map fst sizes) / of_nat (length sizes),
          sum_list (map snd sizes) / of_nat (length sizes))"
  by (simp add: calculate_average_resolution_def Let_def)



lemma spreads_loop_map:
  assumes "fst average \<noteq> 0" and "snd average \<noteq> 0"
  shows "index \<le> length sizes \<Longrightarrow>
    spreads_loop average t index sizes =
      Inr (take index sizes @
           map (\<lambda>(w, h). if \<bar>1 - w / 2 / fst average\<bar> < t \<and> \<bar>1 - h / snd average\<bar> < t
                           then (w / 2, h) else (w, h))
             (drop index sizes))"
proof (induction "length sizes - index" arbitrary: index sizes)
  case 0
  then show ?case by (subst spreads_loop.simps) simp
next
  case (Suc n)
  let ?f = "\<lambda>(w, h). if \<bar>1 - w / 2 / fst average\<bar> < t \<and> \<bar>1 - h / snd average\<bar> < t
                           then (w / 2, h) else (w, h)"
  from Suc.hyps(2) have lt: "index < length sizes" by simp
  obtain w h where wh: "sizes ! index = (w, h)" by (cases "sizes ! index")
  let ?sizes' = "if \<bar>1 - w / 2 / fst average\<bar> < t \<and> \<bar>1 - h / snd average\<bar> < t
                 then sizes[index := (w / 2, h)] else sizes"
  have len: "length ?sizes' = length sizes" by simp
  have step: "spreads_loop average t index sizes = spreads_loop average t (Suc index) ?sizes'"
    using lt assms wh by (subst spreads_loop.simps) (simp add: Let_def)
  have "n = length ?sizes' - Suc index" using Suc.hyps(2) len by simp
  moreover have "Suc index \<le> length ?sizes'" using lt len by simp
  ultimately have IH: "spreads_loop average t (Suc index) ?sizes' =
      Inr (take (Suc index) ?sizes' @ map ?f (drop (Suc index) ?sizes'))"
    by (rule Suc.hyps(1))
  have "take (Suc index) ?sizes' @ map ?f (drop (Suc index) ?sizes') =
        take index sizes @ map ?f (drop index sizes)"
    using lt wh
    by (simp add: take_Suc_conv_app_nth Cons_nth_drop_Suc[symmetric] del: drop_Suc_Cons)
  with step IH show ?case by simp
qed

lemma spreads_loop_zero_average:
  "sizes \<noteq> [] \<Longrightarrow> fst average = 0 \<or> snd average = 0 \<Longrightarrow>
   spreads_loop average t 0 sizes = Inl ZeroDivisionError"
  by (subst spreads_loop.simps) (auto simp: Let_def)

section \<open>The empty list\<close>

text \<open>
  C8. On the empty size list \<open>calculate_average_resolution\<close> raises (the division by
  \<open>len(sizes) = 0\<close>): it returns no value, in particular not zero. Normalisation and
  detection call it first, so they raise as well.
\<close>

theorem empty_sizes_raise:
  "calculate_average_resolution [] = Inl ZeroDivisionError \<and>
   (\<forall>v. calculate_average_resolution [] \<noteq> Inr v) \<and>
   calculate_average_resolution [] \<noteq> Inr (0, 0) \<and>
   (\<forall>t. detect_double_spreads [] t = Inl ZeroDivisionError) \<and>
   (\<forall>t. detect_non_pages [] t = Inl ZeroDivisionError) \<and>
   (\<forall>t. analyse [] t = Inl ZeroDivisionError)"
  by (simp add: calculate_average_resolution_def detect_double_spreads_def
      detect_non_pages_def analyse_def)

section \<open>Spread normalisation\<close>



section \<open>Outlier detection\<close>



section \<open>The two scenarios of the specification\<close>

text \<open>
  C5, as stated, fails on its numbers. For nine entries \<open>(1000, 1500)\<close> and one
  \<open>(200, 300)\<close> the average is \<open>(920, 1380)\<close>, so the average area is \<open>1269600\<close>, more
  than \<open>140000\<close> away from the stated \<open>1410000\<close>, and the ratio of the small entry is
  \<open>25 / 529\<close>, more than \<open>0.0046\<close> away from the stated \<open>0.0426\<close>.
\<close>

theorem thumbnail_scenario_numbers_counterexample:
  "calculate_average_resolution (replicate 9 (1000, 1500) @ [(200, 300)]) = Inr (920, 1380) \<and>
   \<bar>(920 :: rat) * 1380 - 1410000\<bar> > 140000 \<and>
   detect_non_pages (replicate 9 (1000, 1500) @ [(200, 300)]) (1 / 5) = Inr [(9, 25 / 529)] \<and>
   \<bar>(25 :: rat) / 529 - 426 / 10000\<bar> > 46 / 10000"
  by code_simp

text \<open>
  C5, amended. For that list and threshold \<open>0.2\<close>: normalisation changes no entry, the
  average is \<open>(920, 1380)\<close> and the average area exactly \<open>1269600\<close>, the ratio of the
  \<open>(200, 300)\<close> entry is exactly \<open>25 / 529\<close> (\<open>0.0473\<close> to four places), and exactly
  index 9 is flagged, since one minus that ratio exceeds \<open>0.2\<close>.
\<close>

theorem thumbnail_scenario:
  "detect_double_spreads (replicate 9 (1000, 1500) @ [(200, 300)]) (1 / 5) =
     Inr (replicate 9 (1000, 1500) @ [(200, 300)]) \<and>
   calculate_average_resolution (replicate 9 (1000, 1500) @ [(200, 300)]) = Inr (920, 1380) \<and>
   (920 :: rat) * 1380 = 1269600 \<and>
   analyse (replicate 9 (1000, 1500) @ [(200, 300)]) (1 / 5) = Inr [(9, 25 / 529)] \<and>
   (200 :: rat) * 300 / 1269600 = 25 / 529 \<and>
   \<bar>(25 :: rat) / 529 - 473 / 10000\<bar> < 1 / 10000 \<and>
   (1 :: rat) - 25 / 529 > 1 / 5"
  by code_simp

text \<open>
  C6. For nine entries \<open>(1000, 1500)\<close> and one \<open>(2000, 1500)\<close> with threshold \<open>0.2\<close>:
  normalisation rewrites entry 9 to \<open>(1000, 1500)\<close> and leaves entries 0 to 8 as they
  are, and detection on the normalised list flags nothing.
\<close>

theorem spread_scenario:
  "detect_double_spreads (replicate 9 (1000, 1500) @ [(2000, 1500)]) (1 / 5) =
     Inr (replicate 9 (1000, 1500) @ [(1000, 1500)]) \<and>
   detect_non_pages (replicate 9 (1000, 1500) @ [(1000, 1500)]) (1 / 5) = Inr [] \<and>
   analyse (replicate 9 (1000, 1500) @ [(2000, 1500)]) (1 / 5) = Inr []"
  by code_simp

section \<open>Running the normalisation again with the same average\<close>

text \<open>
  C7, as stated, fails for a threshold above one third. With threshold \<open>1 / 2\<close> and the
  sizes \<open>(100, 1000)\<close> three times and \<open>(400, 1000)\<close> once, the average is
  \<open>(175, 1000)\<close>; the last entry is a spread and becomes \<open>(200, 1000)\<close>. Against the
  same average \<open>(175, 1000)\<close> the rewritten entry satisfies the spread test again, and a
  second pass of the loop with that average halves it once more.
\<close>

theorem renormalise_reflags_counterexample:
  "(0 :: rat) < 1 / 2 \<and> (1 :: rat) / 2 < 1 \<and>
   calculate_average_resolution [(100, 1000), (100, 1000), (100, 1000), (400, 1000)] =
     Inr (175, 1000) \<and>
   detect_double_spreads [(100, 1000), (100, 1000), (100, 1000), (400, 1000)] (1 / 2) =
     Inr [(100, 1000), (100, 1000), (100, 1000), (200, 1000)] \<and>
   \<bar>(1 :: rat) - 200 / 2 / 175\<bar> < 1 / 2 \<and> \<bar>(1 :: rat) - 1000 / 1000\<bar> < 1 / 2 \<and>
   spreads_loop (175, 1000) (1 / 2) 0 [(100, 1000), (100, 1000), (100, 1000), (200, 1000)] =
     Inr [(100, 1000), (100, 1000), (100, 1000), (100, 1000)]"
  by code_simp

text \<open>
  The arithmetic behind the amended claim: a width within \<open>t \<le> 1 / 3\<close> of twice the
  average is, once halved, further than \<open>t\<close> from twice the average.
\<close>

lemma halved_not_spread:
  fixes t w aw :: rat
  assumes "t \<le> 1 / 3" and "\<bar>1 - w / 2 / aw\<bar> < t"
  shows "\<not> \<bar>1 - w / 2 / 2 / aw\<bar> < t"
proof -
  define r where "r = w / 2 / aw"
  have half: "w / 2 / 2 / aw = r / 2" by (simp add: r_def)
  from assms(2) have "r < 1 + t" by (simp add: r_def abs_less_iff)
  with assms(1) have "r / 2 < 2 / 3" by simp
  then have "1 - r / 2 > 1 / 3" by simp
  with assms(1) have "\<not> \<bar>1 - r / 2\<bar> < t" by (simp add: abs_less_iff)
  with half show ?thesis by simp
qed

text \<open>
  C7, amended. For a threshold \<open>t \<le> 1 / 3\<close>: every entry that
  \<open>detect_double_spreads\<close> rewrote is \<open>(w / 2, h)\<close> and does not satisfy the spread
  test against the average of the list before normalisation, and a second pass of the
  loop with that same average leaves the normalised list as it is.
\<close>

theorem renormalise_fixed_small_threshold:
  assumes "calculate_average_resolution sizes = Inr (aw, ah)"
    and "detect_double_spreads sizes t = Inr sizes'"
    and "t \<le> 1 / 3"
  shows "(\<forall>i < length sizes.
            sizes' ! i \<noteq> sizes ! i \<longrightarrow>
              sizes' ! i = (fst (sizes ! i) / 2, snd (sizes ! i)) \<and>
              \<not> (\<bar>1 - fst (sizes' ! i) / 2 / aw\<bar> < t \<and> \<bar>1 - snd (sizes' ! i) / ah\<bar> < t)) \<and>
         spreads_loop (aw, ah) t 0 sizes' = Inr sizes'"
proof -
  let ?f = "\<lambda>(w, h). if \<bar>1 - w / 2 / aw\<bar> < t \<and> \<bar>1 - h / ah\<bar> < t then (w / 2, h) else (w, h)"
  from assms(1) have ne: "sizes \<noteq> []"
    by (auto simp: calculate_average_resolution_def)
  from assms(1,2) have loop: "spreads_loop (aw, ah) t 0 sizes = Inr sizes'"
    by (simp add: detect_double_spreads_def)
  have nz: "aw \<noteq> 0 \<and> ah \<noteq> 0"
  proof (rule ccontr)
    assume "\<not> (aw \<noteq> 0 \<and> ah \<noteq> 0)"
    then have "spreads_loop (aw, ah) t 0 sizes = Inl ZeroDivisionError"
      using ne by (intro spreads_loop_zero_average) auto
    with loop show False by simp
  qed
  have res: "sizes' = map ?f sizes"
    using loop spreads_loop_map[of "(aw, ah)" 0 sizes t] nz by simp
  have ff: "?f (?f s) = ?f s" for s
    using halved_not_spread[OF assms(3)] by (cases s) auto
  have again: "spreads_loop (aw, ah) t 0 sizes' = Inr (map ?f sizes')"
    using spreads_loop_map[of "(aw, ah)" 0 sizes' t] nz by simp
  have "map ?f sizes' = sizes'"
    unfolding res using ff by (simp add: comp_def)
  with again have fixed: "spreads_loop (aw, ah) t 0 sizes' = Inr sizes'" by simp
  have each: "sizes' ! i = (fst (sizes ! i) / 2, snd (sizes ! i)) \<and>
      \<not> (\<bar>1 - fst (sizes' ! i) / 2 / aw\<bar> < t \<and> \<bar>1 - snd (sizes' ! i) / ah\<bar> < t)"
    if "i < length sizes" "sizes' ! i \<noteq> sizes ! i" for i
  proof -
    obtain w h where wh: "sizes ! i = (w, h)" by (cases "sizes ! i")
    from that(1) have at: "sizes' ! i = ?f (sizes ! i)" by (simp add: res)
    with that(2) wh have c: "\<bar>1 - w / 2 / aw\<bar> < t \<and> \<bar>1 - h / ah\<bar> < t"
      by (auto split: if_splits)
    with at wh have "sizes' ! i = (w / 2, h)" by simp
    moreover from c halved_not_spread[OF assms(3)] have "\<not> \<bar>1 - w / 2 / 2 / aw\<bar> < t" by blast
    ultimately show ?thesis using wh by simp
  qed
  from each fixed show ?thesis by blast
qed

theorem renormalise_fixed_small_threshold_witness:
  "calculate_average_resolution [(1000, 1500), (1000, 1500), (1000, 1500), (1000, 1500), (2200, 1500)] =
     Inr (1240, 1500) \<and>
   detect_double_spreads [(1000, 1500), (1000, 1500), (1000, 1500), (1000, 1500), (2200, 1500)] (1 / 3) =
     Inr [(1000, 1500), (1000, 1500), (1000, 1500), (1000, 1500), (1100, 1500)] \<and>
   (1 :: rat) / 3 \<le> 1 / 3 \<and>
   spreads_loop (1240, 1500) (1 / 3) 0
     [(1000, 1500), (1000, 1500), (1000, 1500), (1000, 1500), (1100, 1500)] =
     Inr [(1000, 1500), (1000, 1500), (1000, 1500), (1000, 1500), (1100, 1500)]"
proof -
  have a: "calculate_average_resolution
      [(1000, 1500), (1000, 1500), (1000, 1500), (1000, 1500), (2200, 1500)] = Inr (1240, 1500)"
    by code_simp
  have b: "detect_double_spreads
      [(1000, 1500), (1000, 1500), (1000, 1500), (1000, 1500), (2200, 1500)] (1 / 3) =
     Inr [(1000, 1500), (1000, 1500), (1000, 1500), (1000, 1500), (1100, 1500)]"
    by code_simp
  have c: "(1 :: rat) / 3 \<le> 1 / 3" by simp
  from renormalise_fixed_small_threshold[OF a b c] a b c show ?thesis by blast
qed

section \<open>What the rewrite writes\<close>

text \<open>
  Shared facts: every path that \<open>extract\<close>, the loop and \<open>create_archive\<close> change is
  the temporary file or lies in the temporary directory, whatever step fails.
\<close>

lemma foldl_mkdir_frame:
  "\<forall>d \<in> set ds. prefix base d \<Longrightarrow> \<not> prefix base p \<Longrightarrow>
   foldl (\<lambda>f d. f(d \<mapsto> Dir)) fs ds p = fs p"
  by (induction ds arbitrary: fs) auto

lemma zip_extract_frame:
  assumes "\<not> prefix path p"
  shows "snd (zip_extract e index archive member path fs) p = fs p"
proof -
  have up: "\<forall>d \<in> set (map (\<lambda>k. path @ take k arcname) [1..<length arcname]). prefix path d"
    for arcname :: "string list"
    by simp
  have tp: "path @ arcname \<noteq> p" for arcname :: "string list"
    using assms by auto
  show ?thesis
    using assms foldl_mkdir_frame[OF up assms] tp
    by (auto simp: zip_extract_def Let_def split: option.splits)
qed

lemma create_archive_loop_frame:
  assumes "\<not> prefix (tmp_dir e) p"
  shows "snd (create_archive_loop e archive excluded index names new_archive fs) p = fs p"
proof (induction names arbitrary: index new_archive fs)
  case Nil
  show ?case by simp
next
  case (Cons filename rest)
  have ex: "snd (zip_extract e index archive filename (tmp_dir e) fs) p = fs p"
    by (rule zip_extract_frame[OF assms])
  show ?case
  proof (cases "zip_extract e index archive filename (tmp_dir e) fs")
    case (Pair r fs')
    with ex have fs': "fs' p = fs p" by simp
    show ?thesis
      using Pair fs' Cons.IH
      by (auto split: sum.splits)
  qed
qed

lemma create_archive_frame:
  assumes "p \<noteq> tmp_file e" and "\<not> prefix (tmp_dir e) p"
  shows "snd (create_archive e fs archive excluded) p = fs p"
proof -
  have td: "p \<noteq> tmp_dir e" using assms(2) by auto
  have loop: "snd (create_archive_loop e archive excluded 0 (map fst archive) []
                (fs(tmp_file e \<mapsto> File [], tmp_dir e \<mapsto> Dir))) p = fs p"
    using create_archive_loop_frame[OF assms(2)] assms(1) td by simp
  show ?thesis
    using loop assms td
    by (auto simp: create_archive_def Let_def split: prod.splits sum.splits)
qed

section \<open>The original archive during the rewrite\<close>

text \<open>
  C4. The new archive is built in the temporary file and the temporary directory
  only. For an original archive file that is not the temporary file and does not lie
  in the temporary directory (both names are new when they are made), and for every
  choice of failing steps: \<open>create_archive\<close> leaves the content of the original file as
  it was, whether it returns or raises; and when \<open>create_archive\<close> raises, \<open>main\<close>
  raises the same error before \<open>copyfile\<close> runs, with the original file unchanged.
\<close>

theorem create_archive_keeps_original:
  assumes "file \<noteq> tmp_file e" and "\<not> prefix (tmp_dir e) file"
  shows "snd (create_archive e fs archive excluded) file = fs file \<and>
         (\<forall>err. non_pages \<noteq> [] \<and>
                fst (create_archive e fs archive (map (\<lambda>x. int (fst x)) non_pages)) = Inl err \<longrightarrow>
                fst (main_rewrite False e fs file archive non_pages) = Inl err \<and>
                snd (main_rewrite False e fs file archive non_pages) file = fs file)"
proof -
  have frame: "snd (create_archive e fs archive ex) file = fs file" for ex
    by (rule create_archive_frame[OF assms])
  have "fst (main_rewrite False e fs file archive non_pages) = Inl err \<and>
        snd (main_rewrite False e fs file archive non_pages) file = fs file"
    if "non_pages \<noteq> []"
      and "fst (create_archive e fs archive (map (\<lambda>x. int (fst x)) non_pages)) = Inl err" for err
  proof (cases "create_archive e fs archive (map (\<lambda>x. int (fst x)) non_pages)")
    case (Pair r fs')
    with that(2) have r: "r = Inl err" by simp
    from Pair frame[of "map (\<lambda>x. int (fst x)) non_pages"] have "fs' file = fs file" by simp
    with Pair r that(1) show ?thesis by (simp add: main_rewrite_def)
  qed
  with frame show ?thesis by blast
qed

theorem create_archive_keeps_original_witness:
  "[''home'', ''comic.zip''] \<noteq> tmp_file failing_env \<and>
   \<not> prefix (tmp_dir failing_env) [''home'', ''comic.zip''] \<and>
   fst (create_archive failing_env [[''home'', ''comic.zip''] \<mapsto> File ''PK-original'']
          [(''p1.png'', ''A''), (''p2.png'', ''B'')] []) = Inl OSError \<and>
   snd (create_archive failing_env [[''home'', ''comic.zip''] \<mapsto> File ''PK-original'']
          [(''p1.png'', ''A''), (''p2.png'', ''B'')] []) [''home'', ''comic.zip''] =
     Some (File ''PK-original'')"
proof -
  have a: "[''home'', ''comic.zip''] \<noteq> tmp_file failing_env"
    by (simp add: failing_env_def)
  have b: "\<not> prefix (tmp_dir failing_env) [''home'', ''comic.zip'']"
    by (simp add: failing_env_def)
  have c: "fst (create_archive failing_env [[''home'', ''comic.zip''] \<mapsto> File ''PK-original'']
          [(''p1.png'', ''A''), (''p2.png'', ''B'')] []) = Inl OSError"
    by code_simp
  from create_archive_keeps_original[OF a b, of "[[''home'', ''comic.zip''] \<mapsto> File ''PK-original'']"
      "[(''p1.png'', ''A''), (''p2.png'', ''B'')]" "[]" "[]"]
  have d: "snd (create_archive failing_env [[''home'', ''comic.zip''] \<mapsto> File ''PK-original'']
          [(''p1.png'', ''A''), (''p2.png'', ''B'')] []) [''home'', ''comic.zip''] =
     Some (File ''PK-original'')"
    by simp
  from a b c d show ?thesis by blast
qed

section \<open>The members of the new archive\<close>










text \<open>
  C3 fails on the member names. \<open>new_archive.write\<close> is called with the path of the
  extracted file and no \<open>arcname\<close>, so a member is stored under that path without its
  leading separator, not under its original name: with the temporary directory
  \<open>/tmp/tmpab12cd\<close>, the member \<open>p1.png\<close> of a two-member archive rewritten without its
  second member comes out as \<open>tmp/tmpab12cd/p1.png\<close>. Number, order and content of the
  members are as the claim says.
\<close>

theorem create_archive_renames_members:
  "fst (create_archive quiet_env [[''home'', ''comic.zip''] \<mapsto> File ''PK'']
          [(''p1.png'', ''A''), (''p2.png'', ''B'')] [1]) =
     Inr ([''tmp'', ''tmpx1y2z3''], [(''tmp/tmpab12cd/p1.png'', ''A'')]) \<and>
   ''tmp/tmpab12cd/p1.png'' \<noteq> ''p1.png''"
  by code_simp

section \<open>True division in the spread correction\<close>

text \<open>
  \<open>size[0] / 2\<close> is a true division, not the floor division \<open>//\<close>: an odd width that is
  classified as a spread is recorded as its exact half, which is not an integer and is
  not \<open>w // 2\<close>. This is as far as the exact rationals of the embedding go; how the
  later float divisions of the average and of the ratio round in binary is not
  modelled here.
\<close>

lemma odd_half_not_integer:
  fixes w :: int
  assumes "odd w"
  shows "(of_int w :: rat) / 2 \<notin> \<int> \<and> (of_int w :: rat) / 2 \<noteq> of_int (w div 2)"
proof -
  have no: "(of_int w :: rat) / 2 \<noteq> of_int k" for k :: int
  proof
    assume "(of_int w :: rat) / 2 = of_int k"
    then have "(of_int w :: rat) = of_int (2 * k)" by simp
    then have "w = 2 * k" by (simp only: of_int_eq_iff)
    with assms show False by simp
  qed
  then have "(of_int w :: rat) / 2 \<notin> \<int>" by (auto simp: Ints_def)
  with no show ?thesis by simp
qed

lemma odd_spread_width_halved_exactly:
  fixes w :: int
  assumes "sizes \<noteq> []"
    and "aw = sum_list (map fst sizes) / of_nat (length sizes)"
    and "ah = sum_list (map snd sizes) / of_nat (length sizes)"
    and "aw \<noteq> 0" and "ah \<noteq> 0"
    and "i < length sizes" and "sizes ! i = (of_int w, h)" and "odd w"
    and "\<bar>1 - of_int w / 2 / aw\<bar> < t" and "\<bar>1 - h / ah\<bar> < t"
  shows "\<exists>sizes'. detect_double_spreads sizes t = Inr sizes' \<and>
           sizes' ! i = (of_int w / 2, h) \<and> fst (sizes' ! i) \<notin> \<int> \<and>
           fst (sizes' ! i) \<noteq> of_int (w div 2)"
proof -
  let ?f = "\<lambda>(w, h). if \<bar>1 - w / 2 / aw\<bar> < t \<and> \<bar>1 - h / ah\<bar> < t then (w / 2, h) else (w, h)"
  have "spreads_loop (aw, ah) t 0 sizes = Inr (map ?f sizes)"
    using spreads_loop_map[of "(aw, ah)" 0 sizes t] assms(4,5) by simp
  then have run: "detect_double_spreads sizes t = Inr (map ?f sizes)"
    using assms(1-3) by (simp add: detect_double_spreads_def calculate_average_resolution_mean)
  have "map ?f sizes ! i = (of_int w / 2, h)"
    using assms(6,7,9,10) by simp
  with run odd_half_not_integer[OF assms(8)] show ?thesis by simp
qed

end
